theory Spec2Isabelle
  imports Complex_Main "HOL-Library.AList"
begin

section \<open>Values and dictionaries\<close>

text \<open>
  The program (\<^verbatim>\<open>src/app.py\<close>) fetches emission records as JSON, reshapes them into
  a dictionary keyed by sector, averages a category over the sectors and writes a
  recommendation for every sector above the average.

  A value decoded from JSON is a \<open>json\<close>. \<open>JNum\<close> stands for a Python \<open>int\<close> or a
  finite \<open>float\<close>, by its exact numeric value: Python compares and hashes both by that
  value. The non-finite floats, which Python's decoder accepts as an extension of JSON,
  are not modelled. Text is a \<open>string\<close>, the UTF-8 bytes of the Python \<open>str\<close>.
  A dictionary is an association list in insertion order, the order in which Python
  iterates it; \<open>AList.update\<close> is Python's item assignment (replace in place, or append).
\<close>

datatype json =
    JNull
  | JBool bool
  | JNum rat
  | JStr string
  | JArr "json list"
  | JObj "(string \<times> json) list"

datatype py_error = TypeError | AttributeError | KeyError | StatisticsError

text \<open>\<open>d.get(key, default)\<close> on a dictionary with string keys.\<close>

definition dict_get :: "(string \<times> 'v) list \<Rightarrow> string \<Rightarrow> 'v \<Rightarrow> 'v" where
  "dict_get d key dflt = (case map_of d key of None \<Rightarrow> dflt | Some v \<Rightarrow> v)"

text \<open>
  Lists and dictionaries are unhashable: using one as a dictionary key raises
  \<open>TypeError\<close>.
\<close>

fun hashable :: "json \<Rightarrow> bool" where
  "hashable (JArr _) = False"
| "hashable (JObj _) = False"
| "hashable _ = True"

text \<open>
  Python's \<open>==\<close> on the values that can be dictionary keys: \<open>bool\<close> is a subclass of
  \<open>int\<close>, so \<open>True == 1\<close> and \<open>False == 0\<close>, and they select the same dictionary entry;
  a number never equals a string or \<open>None\<close>.
\<close>

fun num_of :: "json \<Rightarrow> rat option" where
  "num_of (JBool b) = Some (if b then 1 else 0)"
| "num_of (JNum r) = Some r"
| "num_of _ = None"

definition py_eq :: "json \<Rightarrow> json \<Rightarrow> bool" where
  "py_eq a b =
     (case num_of a of
        Some x \<Rightarrow> (case num_of b of Some y \<Rightarrow> x = y | None \<Rightarrow> False)
      | None \<Rightarrow> (case num_of b of Some y \<Rightarrow> False | None \<Rightarrow> a = b))"

section \<open>The provider\<close>

text \<open>
  What one HTTP query gives: \<open>requests.get\<close> raises (\<open>Raised\<close>: the provider is
  unreachable, times out, or a stub throws), or there is a reply with a status code and a
  body, which \<open>response.json()\<close> decodes or rejects (\<open>NotJson\<close>). Only exceptions
  derived from \<open>Exception\<close> are modelled. A provider maps the URL queried to the
  outcome; the three queries of one call have different URLs, so this covers a
  provider that answers each of them differently.
\<close>

datatype body = NotJson | Json json

datatype response = Raised | Reply nat body

type_synonym provider = "string \<Rightarrow> response"

text \<open>\<open>response.raise_for_status()\<close> raises for the status codes 400 to 599.\<close>

definition raise_for_status :: "nat \<Rightarrow> bool" where
  "raise_for_status status = (400 \<le> status \<and> status < 600)"

section \<open>get_emission_data\<close>

definition base_url :: string where
  "base_url = ''https://opendata.cbs.nl/ODataApi/odata/84979NED''"

definition categories :: "(string \<times> string) list" where
  "categories = [(''total'', ''T001372''), (''CO2'', ''A044109''), (''other'', ''A050122'')]"

definition sectors :: "(string \<times> string) list" where
  "sectors =
     [(''A050123'', ''Industrie''),
      (''A050124'', ''Elektriciteit''),
      (''A050125'', ''Mobiliteit''),
      (''A050126'', ''Landbouw''),
      (''A050127'', ''Gebouwde omgeving''),
      (''A052138'', ''Landgebruik'')]"

definition query :: "string \<Rightarrow> string \<Rightarrow> string" where
  "query period category_key =
     base_url @ ''/TypedDataSet?''
     @ ''$filter=(Perioden%20eq%20'' @ [CHR 0x27] @ period @ [CHR 0x27]
     @ '')%20and%20(Emissies%20eq%20'' @ [CHR 0x27] @ category_key @ [CHR 0x27] @ '')''
     @ ''&$select=Klimaatsector,EmissieBroeikasgassen_1&$format=json''"

text \<open>
  The \<open>try\<close> block: \<open>data\<close> is \<open>response.json().get("value", [])\<close>, and the empty
  list when anything in the block raises. \<open>.get\<close> on a decoded body that is not an
  object raises \<open>AttributeError\<close>, inside the block.
\<close>

definition fetch_data :: "provider \<Rightarrow> string \<Rightarrow> json" where
  "fetch_data provider url =
     (case provider url of
        Raised \<Rightarrow> JArr []
      | Reply status body \<Rightarrow>
          if raise_for_status status then JArr []
          else (case body of
                  NotJson \<Rightarrow> JArr []
                | Json (JObj kvs) \<Rightarrow> dict_get kvs ''value'' (JArr [])
                | Json _ \<Rightarrow> JArr []))"

text \<open>
  \<open>for item in data\<close>: a list gives its elements, a string its characters (each a
  \<open>str\<close>), a dictionary its keys; \<open>None\<close>, a boolean or a number is not iterable.
\<close>

fun py_iter :: "json \<Rightarrow> py_error + json list" where
  "py_iter (JArr items) = Inr items"
| "py_iter (JStr s) = Inr (map (\<lambda>c. JStr [c]) s)"
| "py_iter (JObj kvs) = Inr (map (\<lambda>kv. JStr (fst kv)) kvs)"
| "py_iter _ = Inl TypeError"

text \<open>
  \<open>sectors.get(sector_key, sector_key)\<close>: the lookup hashes the key first, so an
  unhashable key raises.
\<close>

definition sectors_get :: "json \<Rightarrow> py_error + json" where
  "sectors_get sector_key =
     (if \<not> hashable sector_key then Inl TypeError
      else case sector_key of
             JStr code \<Rightarrow> (case map_of sectors code of
                             Some name \<Rightarrow> Inr (JStr name)
                           | None \<Rightarrow> Inr sector_key)
           | _ \<Rightarrow> Inr sector_key)"

type_synonym results = "(json \<times> (string \<times> json) list) list"

text \<open>
  \<open>results.setdefault(sector_name, {})[category_name] = value\<close>: the entry whose key
  equals \<open>sector_name\<close> keeps its key and its place and has the category written into
  its inner dictionary; without such an entry a new one is appended.
\<close>

fun setdefault_setitem :: "results \<Rightarrow> json \<Rightarrow> string \<Rightarrow> json \<Rightarrow> results" where
  "setdefault_setitem [] sector_name category_name v = [(sector_name, [(category_name, v)])]"
| "setdefault_setitem ((k, inner) # rest) sector_name category_name v =
     (if py_eq k sector_name then (k, AList.update category_name v inner) # rest
      else (k, inner) # setdefault_setitem rest sector_name category_name v)"

text \<open>
  The two reads of a record: \<open>item.get("Klimaatsector")\<close>, which is \<open>None\<close> when
  the field is missing, and \<open>item.get("EmissieBroeikasgassen_1", 0.0)\<close>.
\<close>

definition sector_key_of :: "(string \<times> json) list \<Rightarrow> json" where
  "sector_key_of kvs = dict_get kvs ''Klimaatsector'' JNull"

definition emission_of :: "(string \<times> json) list \<Rightarrow> json" where
  "emission_of kvs = dict_get kvs ''EmissieBroeikasgassen_1'' (JNum 0)"

text \<open>The body of the loop over the records; \<open>item.get\<close> needs a dictionary.\<close>

definition process_item :: "string \<Rightarrow> results \<Rightarrow> json \<Rightarrow> py_error + results" where
  "process_item category_name results item =
     (case item of
        JObj kvs \<Rightarrow>
          (let sector_key = sector_key_of kvs in
           if py_eq sector_key (JStr ''T001616'') then Inr results
           else (case sectors_get sector_key of
                   Inl e \<Rightarrow> Inl e
                 | Inr sector_name \<Rightarrow>
                     Inr (setdefault_setitem results sector_name category_name
                            (emission_of kvs))))
      | _ \<Rightarrow> Inl AttributeError)"

fun process_items :: "string \<Rightarrow> results \<Rightarrow> json list \<Rightarrow> py_error + results" where
  "process_items category_name results [] = Inr results"
| "process_items category_name results (item # items) =
     (case process_item category_name results item of
        Inl e \<Rightarrow> Inl e
      | Inr results' \<Rightarrow> process_items category_name results' items)"

text \<open>The loop over the categories; the first exception ends the call.\<close>

fun fetch_categories ::
  "provider \<Rightarrow> string \<Rightarrow> (string \<times> string) list \<Rightarrow> results \<Rightarrow> py_error + results" where
  "fetch_categories provider period [] results = Inr results"
| "fetch_categories provider period ((category_name, category_key) # cs) results =
     (case py_iter (fetch_data provider (query period category_key)) of
        Inl e \<Rightarrow> Inl e
      | Inr items \<Rightarrow>
          (case process_items category_name results items of
             Inl e \<Rightarrow> Inl e
           | Inr results' \<Rightarrow> fetch_categories provider period cs results'))"

definition get_emission_data :: "provider \<Rightarrow> string \<Rightarrow> py_error + results" where
  "get_emission_data provider period = fetch_categories provider period categories []"

section \<open>compute_average\<close>

text \<open>
  The two remaining functions take a dictionary typed \<open>Dict[str, Dict[str, float]]\<close>.
  A float is modelled by its exact value, a rational; comparisons of floats are exact.
  \<open>statistics.mean\<close> adds the values as exact fractions, divides by their number and
  converts the quotient to a float once; \<open>to_float\<close> is that conversion, a parameter
  of the model. On an empty list \<open>statistics.mean\<close> raises \<open>StatisticsError\<close>.
\<close>

type_synonym emissions = "(string \<times> (string \<times> rat) list) list"

definition statistics_mean :: "(rat \<Rightarrow> rat) \<Rightarrow> rat list \<Rightarrow> py_error + rat" where
  "statistics_mean to_float xs =
     (if xs = [] then Inl StatisticsError
      else Inr (to_float (sum_list xs / of_nat (length xs))))"

definition compute_average :: "(rat \<Rightarrow> rat) \<Rightarrow> emissions \<Rightarrow> string \<Rightarrow> py_error + rat" where
  "compute_average to_float data category =
     (let vs = map (\<lambda>vals. dict_get vals category 0) (map snd data)
      in if vs \<noteq> [] then statistics_mean to_float vs else Inr 0)"

section \<open>interpret_data\<close>

text \<open>
  The format \<open>:.1f\<close> rounds the exact value to one decimal, a tie going to the even
  digit, and keeps the sign of a negative value that rounds to zero. (The float
  \<open>-0.0\<close>, printed \<open>-0.0\<close>, has no counterpart among the rationals.)
\<close>

definition round_half_even :: "rat \<Rightarrow> int" where
  "round_half_even x =
     (let f = \<lfloor>x\<rfloor>; d = x - of_int f
      in if d < 1 / 2 then f
         else if 1 / 2 < d then f + 1
         else if even f then f else f + 1)"

definition digit_char :: "nat \<Rightarrow> char" where
  "digit_char d = char_of (48 + d)"

fun decimal :: "nat \<Rightarrow> string" where
  "decimal n = (if n < 10 then [digit_char n] else decimal (n div 10) @ [digit_char (n mod 10)])"

definition format_1f :: "rat \<Rightarrow> string" where
  "format_1f x =
     (let n = nat (round_half_even (\<bar>x\<bar> * 10))
      in (if x < 0 then ''-'' else []) @ decimal (n div 10) @ ''.'' @ [digit_char (n mod 10)])"

text \<open>
  The f-string of the action. The subscript two of the source is the three bytes
  \<open>E2 82 82\<close>; the backslash at the end of the source line joins the next line to the
  literal, with the sixteen blanks of its indentation.
\<close>

definition action_text :: "string \<Rightarrow> rat \<Rightarrow> rat \<Rightarrow> string" where
  "action_text sector total_value average =
     ''De sector '' @ sector @ '' stoot '' @ format_1f total_value
     @ '' Mt CO'' @ [CHR 0xE2, CHR 0x82, CHR 0x82] @ ''-equivalent uit, wat boven ''
     @ ''het gemiddelde van '' @ format_1f average @ '' Mt ligt. Controleer grote ''
     @ ''                installaties en voer aanvullende reductiemaatregelen uit.''"

type_synonym actions = "(string \<times> string) list"

text \<open>
  The loop over \<open>data.items()\<close>. The test reads the average with a default, the text
  reads \<open>averages['total']\<close>, which raises \<open>KeyError\<close> when the key is missing.
\<close>

fun interpret_loop ::
  "emissions \<Rightarrow> (string \<times> rat) list \<Rightarrow> actions \<Rightarrow> py_error + actions" where
  "interpret_loop [] averages actions = Inr actions"
| "interpret_loop ((sector, vals) # rest) averages actions =
     (let total_value = dict_get vals ''total'' 0 in
      if total_value > dict_get averages ''total'' 0 then
        (case map_of averages ''total'' of
           None \<Rightarrow> Inl KeyError
         | Some average \<Rightarrow>
             interpret_loop rest averages
               (AList.update sector (action_text sector total_value average) actions))
      else interpret_loop rest averages actions)"

definition interpret_data :: "emissions \<Rightarrow> (string \<times> rat) list \<Rightarrow> py_error + actions" where
  "interpret_data data averages = interpret_loop data averages []"

section \<open>Notions of the specification\<close>

text \<open>
  Reading the returned dictionary: \<open>results.get(s)\<close>, and \<open>results[s][c]\<close> where it
  exists.
\<close>

fun results_get :: "results \<Rightarrow> json \<Rightarrow> (string \<times> json) list option" where
  "results_get [] s = None"
| "results_get ((k, inner) # rest) s = (if py_eq k s then Some inner else results_get rest s)"

definition value_at :: "results \<Rightarrow> json \<Rightarrow> string \<Rightarrow> json option" where
  "value_at results s c =
     (case results_get results s of None \<Rightarrow> None | Some inner \<Rightarrow> map_of inner c)"

text \<open>
  The catalog of the specification: the canonical name of a known code, and any
  other code unchanged.
\<close>

definition name_for :: "json \<Rightarrow> json" where
  "name_for code =
     (case code of
        JStr c \<Rightarrow> (case map_of sectors c of Some name \<Rightarrow> JStr name | None \<Rightarrow> code)
      | _ \<Rightarrow> code)"

text \<open>
  What one record means in the specification: the row of the whole country means
  nothing, any other record means its sector name and its value.
\<close>

definition is_total_row :: "json \<Rightarrow> bool" where
  "is_total_row item =
     (case item of JObj kvs \<Rightarrow> sector_key_of kvs = JStr ''T001616'' | _ \<Rightarrow> False)"

definition record_write :: "json \<Rightarrow> (json \<times> json) option" where
  "record_write item =
     (case item of
        JObj kvs \<Rightarrow>
          if sector_key_of kvs = JStr ''T001616'' then None
          else Some (name_for (sector_key_of kvs), emission_of kvs)
      | _ \<Rightarrow> None)"

text \<open>The value of the last record of a list that is stored under sector \<open>s\<close>.\<close>

fun last_write :: "json list \<Rightarrow> json \<Rightarrow> json option" where
  "last_write [] s = None"
| "last_write (item # items) s =
     (case last_write items s of
        Some v \<Rightarrow> Some v
      | None \<Rightarrow> (case record_write item of
                   Some (name, v) \<Rightarrow> if py_eq name s then Some v else None
                 | None \<Rightarrow> None))"

text \<open>
  The payloads the loop over the records can process: a record is a JSON object, and
  its sector code, unless it is the total row, is hashable.
\<close>

definition record_ok :: "json \<Rightarrow> bool" where
  "record_ok item =
     (case item of
        JObj kvs \<Rightarrow> sector_key_of kvs = JStr ''T001616'' \<or> hashable (sector_key_of kvs)
      | _ \<Rightarrow> False)"


text \<open>The records of one category, none when the value under \<open>value\<close> is not iterable.\<close>

definition records_of :: "provider \<Rightarrow> string \<Rightarrow> string \<Rightarrow> json list" where
  "records_of provider period category_key =
     (case py_iter (fetch_data provider (query period category_key)) of
        Inl e \<Rightarrow> []
      | Inr items \<Rightarrow> items)"


text \<open>
  The value of a sector for a category, \<open>0.0\<close> where it is absent, and the arithmetic
  mean of a category over the sector keys of the data.
\<close>

definition sector_value :: "emissions \<Rightarrow> string \<Rightarrow> string \<Rightarrow> rat" where
  "sector_value data category s =
     (case map_of data s of
        None \<Rightarrow> 0
      | Some vals \<Rightarrow> (case map_of vals category of None \<Rightarrow> 0 | Some v \<Rightarrow> v))"

definition arithmetic_mean :: "emissions \<Rightarrow> string \<Rightarrow> rat" where
  "arithmetic_mean data category =
     (\<Sum>s \<in> set (map fst data). sector_value data category s)
       / of_nat (card (set (map fst data)))"

section \<open>Example inputs\<close>


text \<open>
  A provider that answers the query for the total with five records (the total row, two
  records of one sector, a record whose value is \<open>null\<close>, a record of an unknown
  code without a value), raises on the query for carbon dioxide and replies 503 to
  anything else.
\<close>

definition sample_provider :: provider where
  "sample_provider url =
     (if url = query ''2023JJ00'' ''T001372'' then
        Reply 200 (Json (JObj [(''value'', JArr
          [JObj [(''Klimaatsector'', JStr ''T001616''), (''EmissieBroeikasgassen_1'', JNum 150)],
           JObj [(''Klimaatsector'', JStr ''A050123''), (''EmissieBroeikasgassen_1'', JNum 10)],
           JObj [(''Klimaatsector'', JStr ''A050123''), (''EmissieBroeikasgassen_1'', JNum 20)],
           JObj [(''Klimaatsector'', JStr ''A050125''), (''EmissieBroeikasgassen_1'', JNull)],
           JObj [(''Klimaatsector'', JStr ''X1'')]])]))
      else if url = query ''2023JJ00'' ''A044109'' then Raised
      else Reply 503 NotJson)"

text \<open>A record is stored under sector \<open>s\<close> when it is written under a key equal to \<open>s\<close>.\<close>

definition stored_under :: "json \<Rightarrow> json \<Rightarrow> bool" where
  "stored_under item s =
     (case record_write item of Some (name, v) \<Rightarrow> py_eq name s | None \<Rightarrow> False)"

text \<open>
  The returned association list is a dictionary: no two sector keys are equal, and no
  sector has two entries for a category.
\<close>

fun keys_distinct :: "results \<Rightarrow> bool" where
  "keys_distinct [] = True"
| "keys_distinct ((k, inner) # rest) =
     (list_all (\<lambda>entry. \<not> py_eq (fst entry) k) rest
      \<and> distinct (map fst inner) \<and> keys_distinct rest)"

text \<open>The same provider with the total rows taken out of every list of records.\<close>

definition without_total_rows :: "provider \<Rightarrow> provider" where
  "without_total_rows provider url =
     (case provider url of
        Raised \<Rightarrow> Raised
      | Reply status body \<Rightarrow>
          (case body of
             NotJson \<Rightarrow> Reply status NotJson
           | Json j \<Rightarrow>
               (case j of
                  JObj kvs \<Rightarrow>
                    (case map_of kvs ''value'' of
                       Some (JArr items) \<Rightarrow>
                         Reply status (Json (JObj (AList.update ''value''
                           (JArr (filter (\<lambda>item. \<not> is_total_row item) items)) kvs)))
                     | _ \<Rightarrow> Reply status body)
                | _ \<Rightarrow> Reply status body)))"



text \<open>A provider whose every reply holds one record, with a list as its sector code.\<close>

definition list_code_provider :: provider where
  "list_code_provider url =
     Reply 200 (Json (JObj [(''value'', JArr
       [JObj [(''Klimaatsector'', JArr [JStr ''A050123'']),
              (''EmissieBroeikasgassen_1'', JNum 10)]])]))"

text \<open>
  A conversion for the examples: rounding to the nearest multiple of \<open>1/1024\<close>, a
  fixed-point stand-in for the conversion to a float.
\<close>

definition to_fixed :: "rat \<Rightarrow> rat" where
  "to_fixed q = of_int (round_half_even (q * 1024)) / 1024"

text \<open>Three sectors; the second has no entry for carbon dioxide.\<close>

definition sample_data :: emissions where
  "sample_data =
     [(''Industrie'', [(''total'', 10), (''CO2'', 6), (''other'', 4)]),
      (''Mobiliteit'', [(''total'', 4), (''other'', 1)]),
      (''Landbouw'', [(''total'', 7), (''CO2'', 1), (''other'', 6)])]"

text \<open>Two sectors with the same total.\<close>

definition level_data :: emissions where
  "level_data =
     [(''Industrie'', [(''total'', 7 / 2), (''CO2'', 3)]),
      (''Mobiliteit'', [(''total'', 7 / 2)])]"

text \<open>The averages of \<open>sample_data\<close>, and averages without the key \<open>total\<close>.\<close>

definition sample_averages :: "(string \<times> rat) list" where
  "sample_averages = [(''total'', 7), (''CO2'', 7 / 3), (''other'', 11 / 3)]"

definition partial_averages :: "(string \<times> rat) list" where
  "partial_averages = [(''CO2'', 7 / 3), (''other'', 11 / 3)]"

text \<open>Two sectors, none with a total above zero.\<close>

definition sink_data :: emissions where
  "sink_data = [(''Landgebruik'', [(''total'', - 1), (''CO2'', - 2)]), (''Landbouw'', [(''CO2'', 5)])]"

section \<open>Dictionary keys and lookups\<close>

lemma py_eq_refl [simp]: "py_eq a a"
  by (simp add: py_eq_def split: option.splits)

lemma py_eq_sym: "py_eq a b \<Longrightarrow> py_eq b a"
  by (auto simp: py_eq_def split: option.splits)

lemma py_eq_trans: "py_eq a b \<Longrightarrow> py_eq b c \<Longrightarrow> py_eq a c"
  by (auto simp: py_eq_def split: option.splits)

lemma py_eq_JStr [simp]: "py_eq a (JStr s) \<longleftrightarrow> a = JStr s"
  by (cases a) (auto simp: py_eq_def)

lemma py_eq_JStr_left [simp]: "py_eq (JStr s) a \<longleftrightarrow> a = JStr s"
  by (cases a) (auto simp: py_eq_def)

lemma py_eq_cong: "py_eq k s \<Longrightarrow> py_eq k s' \<longleftrightarrow> py_eq s s'"
  by (meson py_eq_sym py_eq_trans)

lemma results_get_setdefault_setitem:
  "results_get (setdefault_setitem r s c v) s' =
     (if py_eq s s'
      then Some (AList.update c v (case results_get r s of None \<Rightarrow> [] | Some inner \<Rightarrow> inner))
      else results_get r s')"
proof (induction r)
  case Nil
  then show ?case by simp
next
  case (Cons p r)
  obtain k inner where p: "p = (k, inner)" by (cases p)
  show ?case
  proof (cases "py_eq k s")
    case True
    then have "py_eq k s' \<longleftrightarrow> py_eq s s'" by (rule py_eq_cong)
    with True show ?thesis by (simp add: p)
  next
    case False
    with Cons.IH show ?thesis
      by (auto simp: p dest: py_eq_sym py_eq_trans)
  qed
qed

lemma results_get_cong: "py_eq s s' \<Longrightarrow> results_get r s = results_get r s'"
proof (induction r)
  case Nil
  then show ?case by simp
next
  case (Cons p r)
  obtain k inner where p: "p = (k, inner)" by (cases p)
  from Cons.prems have "py_eq k s \<longleftrightarrow> py_eq k s'"
    by (meson py_eq_sym py_eq_trans)
  with Cons p show ?case by simp
qed

lemma value_at_setdefault_setitem:
  "value_at (setdefault_setitem r s c v) s' c' =
     (if py_eq s s' \<and> c = c' then Some v else value_at r s' c')"
proof (cases "py_eq s s'")
  case True
  then have "results_get r s = results_get r s'" by (rule results_get_cong)
  with True show ?thesis
    by (auto simp: value_at_def results_get_setdefault_setitem update_conv' split: option.splits)
next
  case False
  then show ?thesis
    by (simp add: value_at_def results_get_setdefault_setitem)
qed

section \<open>One record, one category\<close>

lemma sectors_get_hashable: "hashable k \<Longrightarrow> sectors_get k = Inr (name_for k)"
  by (cases k) (auto simp: sectors_get_def name_for_def split: option.splits)

lemma sectors_get_unhashable: "\<not> hashable k \<Longrightarrow> sectors_get k = Inl TypeError"
  by (simp add: sectors_get_def)

lemma process_item_ok:
  "record_ok item \<Longrightarrow>
   process_item c r item =
     Inr (case record_write item of
            None \<Rightarrow> r
          | Some (name, v) \<Rightarrow> setdefault_setitem r name c v)"
  by (cases item)
     (auto simp: record_ok_def process_item_def record_write_def Let_def sectors_get_hashable)

lemma process_item_bad:
  "\<not> record_ok item \<Longrightarrow> \<exists>e. process_item c r item = Inl e"
  by (cases item)
     (auto simp: record_ok_def process_item_def Let_def sectors_get_unhashable)


lemma value_at_process_items:
  "process_items c r items = Inr r' \<Longrightarrow>
   value_at r' s c' =
     (if c' = c
      then (case last_write items s of Some v \<Rightarrow> Some v | None \<Rightarrow> value_at r s c)
      else value_at r s c')"
proof (induction items arbitrary: r)
  case Nil
  then show ?case by (simp split: option.splits)
next
  case (Cons item items)
  from Cons.prems have ok: "record_ok item"
    using process_item_bad [of item c r] by (auto split: sum.splits)
  define r1 where "r1 = (case record_write item of None \<Rightarrow> r
          | Some (name, v) \<Rightarrow> setdefault_setitem r name c v)"
  have step: "process_item c r item = Inr r1"
    unfolding r1_def using ok by (rule process_item_ok)
  with Cons.prems have "process_items c r1 items = Inr r'" by simp
  from Cons.IH [OF this]
  have IH: "value_at r' s c' =
     (if c' = c
      then (case last_write items s of Some v \<Rightarrow> Some v | None \<Rightarrow> value_at r1 s c)
      else value_at r1 s c')" .
  have r1: "value_at r1 s x =
     (case record_write item of
        Some (name, v) \<Rightarrow> if py_eq name s \<and> c = x then Some v else value_at r s x
      | None \<Rightarrow> value_at r s x)" for x
    by (simp add: r1_def value_at_setdefault_setitem split: option.splits)
  show ?case
    unfolding IH by (auto simp: r1 split: option.splits)
qed

section \<open>The loop over the categories\<close>


lemma value_at_fetch_categories:
  "fetch_categories provider period cs r = Inr r' \<Longrightarrow> distinct (map fst cs) \<Longrightarrow>
   value_at r' s c =
     (case map_of cs c of
        None \<Rightarrow> value_at r s c
      | Some ckey \<Rightarrow> (case last_write (records_of provider period ckey) s of
                       Some v \<Rightarrow> Some v
                     | None \<Rightarrow> value_at r s c))"
proof (induction cs arbitrary: r)
  case Nil
  then show ?case by simp
next
  case (Cons p cs)
  obtain cname ckey where p: "p = (cname, ckey)" by (cases p)
  from Cons.prems(1) obtain items where
    items: "py_iter (fetch_data provider (query period ckey)) = Inr items"
    by (auto simp: p split: sum.splits)
  with Cons.prems(1) obtain r1 where
    r1: "process_items cname r items = Inr r1" and
    rest: "fetch_categories provider period cs r1 = Inr r'"
    by (auto simp: p split: sum.splits)
  from Cons.prems(2) have d: "distinct (map fst cs)" and notin: "cname \<notin> fst ` set cs"
    by (auto simp: p)
  have recs: "records_of provider period ckey = items"
    by (simp add: records_of_def items)
  note IH = Cons.IH [OF rest d]
  note step = value_at_process_items [OF r1, of s c]
  show ?case
  proof (cases "c = cname")
    case True
    with notin have "map_of cs c = None"
      by (simp add: map_of_eq_None_iff)
    with IH step True show ?thesis
      by (auto simp: p recs split: option.splits)
  next
    case False
    with IH step show ?thesis
      by (simp add: p split: option.splits)
  qed
qed

lemma value_at_get_emission_data:
  assumes "get_emission_data provider period = Inr results"
  shows "value_at results s c =
     (case map_of categories c of
        None \<Rightarrow> None
      | Some ckey \<Rightarrow> last_write (records_of provider period ckey) s)"
proof -
  have "distinct (map fst categories)"
    by (simp add: categories_def)
  from value_at_fetch_categories [OF assms [unfolded get_emission_data_def] this, of s c]
  show ?thesis
    by (simp add: value_at_def split: option.splits)
qed





section \<open>Claims about get_emission_data\<close>






section \<open>The last record of a sector\<close>

lemma last_write_append:
  "last_write (xs @ ys) s =
     (case last_write ys s of Some v \<Rightarrow> Some v | None \<Rightarrow> last_write xs s)"
  by (induction xs) (auto split: option.splits)

lemma last_write_None_iff:
  "last_write items s = None \<longleftrightarrow> (\<forall>item \<in> set items. \<not> stored_under item s)"
proof (induction items)
  case Nil
  show ?case by simp
next
  case (Cons item items)
  show ?case
  proof (cases "last_write items s")
    case None
    with Cons.IH show ?thesis
      by (auto simp: stored_under_def split: option.splits)
  next
    case (Some v)
    with Cons.IH show ?thesis by auto
  qed
qed

lemma last_write_last_record:
  assumes "stored_under (JObj kvs) s" and "\<forall>item \<in> set after. \<not> stored_under item s"
  shows "last_write (before @ JObj kvs # after) s = Some (emission_of kvs)"
proof -
  from assms(2) have "last_write after s = None"
    by (simp add: last_write_None_iff)
  moreover from assms(1) have "record_write (JObj kvs) = Some (name_for (sector_key_of kvs), emission_of kvs)"
    and "py_eq (name_for (sector_key_of kvs)) s"
    by (auto simp: stored_under_def record_write_def split: if_splits)
  ultimately show ?thesis
    by (simp add: last_write_append)
qed

lemma value_at_last_record:
  assumes "get_emission_data provider period = Inr results"
    and "(cname, ckey) \<in> set categories"
    and "records_of provider period ckey = before @ JObj kvs # after"
    and "stored_under (JObj kvs) s"
    and "\<forall>item \<in> set after. \<not> stored_under item s"
  shows "value_at results s cname = Some (emission_of kvs)"
proof -
  have "distinct (map fst categories)" by (simp add: categories_def)
  with assms(2) have "map_of categories cname = Some ckey" by simp
  with value_at_get_emission_data [OF assms(1), of s cname]
  have "value_at results s cname = last_write (records_of provider period ckey) s"
    by simp
  with assms(3) last_write_last_record [OF assms(4,5)] show ?thesis
    by simp
qed

section \<open>The result is a dictionary\<close>

lemma setdefault_setitem_keys:
  "list_all (\<lambda>entry. \<not> py_eq (fst entry) k) r \<Longrightarrow> \<not> py_eq s k \<Longrightarrow>
   list_all (\<lambda>entry. \<not> py_eq (fst entry) k) (setdefault_setitem r s c v)"
  by (induction r s c v rule: setdefault_setitem.induct) auto

lemma keys_distinct_setdefault_setitem:
  "keys_distinct r \<Longrightarrow> keys_distinct (setdefault_setitem r s c v)"
proof (induction r s c v rule: setdefault_setitem.induct)
  case (1 s c v)
  show ?case by simp
next
  case (2 k inner rest s c v)
  show ?case
  proof (cases "py_eq k s")
    case True
    with "2.prems" show ?thesis by (simp add: distinct_update)
  next
    case False
    then have "\<not> py_eq s k" by (blast dest: py_eq_sym)
    with False "2.prems" "2.IH" show ?thesis
      by (simp add: setdefault_setitem_keys)
  qed
qed

lemma keys_distinct_process_items:
  "process_items c r items = Inr r' \<Longrightarrow> keys_distinct r \<Longrightarrow> keys_distinct r'"
proof (induction items arbitrary: r)
  case Nil
  then show ?case by simp
next
  case (Cons item items)
  from Cons.prems(1) have ok: "record_ok item"
    using process_item_bad [of item c r] by (auto split: sum.splits)
  define r1 where "r1 = (case record_write item of None \<Rightarrow> r
          | Some (name, v) \<Rightarrow> setdefault_setitem r name c v)"
  have "process_item c r item = Inr r1"
    unfolding r1_def using ok by (rule process_item_ok)
  with Cons.prems(1) have rest: "process_items c r1 items = Inr r'" by simp
  have "keys_distinct r1"
    using Cons.prems(2)
    by (auto simp: r1_def keys_distinct_setdefault_setitem split: option.splits)
  with Cons.IH [OF rest] show ?case .
qed

lemma keys_distinct_fetch_categories:
  "fetch_categories provider period cs r = Inr r' \<Longrightarrow> keys_distinct r \<Longrightarrow> keys_distinct r'"
proof (induction cs arbitrary: r)
  case Nil
  then show ?case by simp
next
  case (Cons p cs)
  obtain cname ckey where p: "p = (cname, ckey)" by (cases p)
  from Cons.prems(1) obtain items r1 where
    "process_items cname r items = Inr r1" and
    rest: "fetch_categories provider period cs r1 = Inr r'"
    by (auto simp: p split: sum.splits)
  with Cons.prems(2) have "keys_distinct r1"
    by (blast intro: keys_distinct_process_items)
  with Cons.IH [OF rest] show ?case .
qed

lemma keys_distinct_get_emission_data:
  "get_emission_data provider period = Inr results \<Longrightarrow> keys_distinct results"
  unfolding get_emission_data_def
  by (erule keys_distinct_fetch_categories) simp

text \<open>
  Claim C4: when the provider returns several records for the same sector and
  category, the value in the returned mapping is the value of the last of them, as it
  is, whatever the earlier records held; and the mapping has one entry per sector and
  one value per category of a sector.
\<close>

theorem last_write_wins:
  assumes "get_emission_data provider period = Inr results"
    and "(cname, ckey) \<in> set categories"
    and "records_of provider period ckey = before @ JObj kvs # after"
    and "stored_under (JObj kvs) s"
    and "\<forall>item \<in> set after. \<not> stored_under item s"
  shows "value_at results s cname = Some (emission_of kvs) \<and> keys_distinct results"
  using value_at_last_record [OF assms] keys_distinct_get_emission_data [OF assms(1)]
  by simp

theorem last_write_wins_witness:
  "get_emission_data sample_provider ''2023JJ00'' =
     Inr [(JStr ''Industrie'', [(''total'', JNum 20)]),
          (JStr ''Mobiliteit'', [(''total'', JNull)]),
          (JStr ''X1'', [(''total'', JNum 0)])]
   \<and> (''total'', ''T001372'') \<in> set categories
   \<and> records_of sample_provider ''2023JJ00'' ''T001372'' =
       [JObj [(''Klimaatsector'', JStr ''T001616''), (''EmissieBroeikasgassen_1'', JNum 150)],
        JObj [(''Klimaatsector'', JStr ''A050123''), (''EmissieBroeikasgassen_1'', JNum 10)]]
       @ JObj [(''Klimaatsector'', JStr ''A050123''), (''EmissieBroeikasgassen_1'', JNum 20)]
       # [JObj [(''Klimaatsector'', JStr ''A050125''), (''EmissieBroeikasgassen_1'', JNull)],
          JObj [(''Klimaatsector'', JStr ''X1'')]]
   \<and> stored_under
         (JObj [(''Klimaatsector'', JStr ''A050123''), (''EmissieBroeikasgassen_1'', JNum 10)])
         (JStr ''Industrie'')
   \<and> stored_under
         (JObj [(''Klimaatsector'', JStr ''A050123''), (''EmissieBroeikasgassen_1'', JNum 20)])
         (JStr ''Industrie'')
   \<and> value_at
         [(JStr ''Industrie'', [(''total'', JNum 20)]),
          (JStr ''Mobiliteit'', [(''total'', JNull)]),
          (JStr ''X1'', [(''total'', JNum 0)])]
         (JStr ''Industrie'') ''total'' = Some (JNum 20)
   \<and> keys_distinct
         [(JStr ''Industrie'', [(''total'', JNum 20)]),
          (JStr ''Mobiliteit'', [(''total'', JNull)]),
          (JStr ''X1'', [(''total'', JNum 0)])]"
proof -
  let ?kvs = "[(''Klimaatsector'', JStr ''A050123''), (''EmissieBroeikasgassen_1'', JNum 20)]"
  let ?after = "[JObj [(''Klimaatsector'', JStr ''A050125''), (''EmissieBroeikasgassen_1'', JNull)],
          JObj [(''Klimaatsector'', JStr ''X1'')]]"
  have run: "get_emission_data sample_provider ''2023JJ00'' =
     Inr [(JStr ''Industrie'', [(''total'', JNum 20)]),
          (JStr ''Mobiliteit'', [(''total'', JNull)]),
          (JStr ''X1'', [(''total'', JNum 0)])]"
    by (simp add: get_emission_data_def categories_def fetch_data_def sample_provider_def
        query_def base_url_def raise_for_status_def dict_get_def process_item_def
        sector_key_of_def emission_of_def sectors_get_def sectors_def)
  have cat: "(''total'', ''T001372'') \<in> set categories"
    by (simp add: categories_def)
  have recs: "records_of sample_provider ''2023JJ00'' ''T001372'' =
       [JObj [(''Klimaatsector'', JStr ''T001616''), (''EmissieBroeikasgassen_1'', JNum 150)],
        JObj [(''Klimaatsector'', JStr ''A050123''), (''EmissieBroeikasgassen_1'', JNum 10)]]
       @ JObj ?kvs # ?after"
    by (simp add: records_of_def fetch_data_def sample_provider_def raise_for_status_def
        dict_get_def)
  have st: "stored_under (JObj ?kvs) (JStr ''Industrie'')"
    "stored_under
       (JObj [(''Klimaatsector'', JStr ''A050123''), (''EmissieBroeikasgassen_1'', JNum 10)])
       (JStr ''Industrie'')"
    by (simp_all add: stored_under_def record_write_def sector_key_of_def dict_get_def
        name_for_def sectors_def)
  have later: "\<forall>item \<in> set ?after. \<not> stored_under item (JStr ''Industrie'')"
    by (simp add: stored_under_def record_write_def sector_key_of_def dict_get_def
        name_for_def sectors_def)
  from last_write_wins [OF run cat recs st(1) later] run cat recs st show ?thesis
    by (simp add: emission_of_def dict_get_def)
qed

section \<open>The catalog and the total row\<close>

text \<open>
  Claim C5, as stated: the resolution of a sector code to its name never fails, for
  every sector code. It fails on a code that is a list: the lookup in \<open>sectors\<close>
  hashes the code, a list is unhashable, and the call raises \<open>TypeError\<close>.
\<close>

theorem sectors_get_raises_counterexample:
  "sectors_get (JArr [JStr ''A050123'']) = Inl TypeError
   \<and> get_emission_data list_code_provider ''2023JJ00'' = Inl TypeError"
  by (simp add: sectors_get_def get_emission_data_def categories_def list_code_provider_def
      fetch_data_def raise_for_status_def dict_get_def process_item_def sector_key_of_def)

text \<open>
  Claim C5, amended: for every sector code that is a string the resolution gives the
  canonical name when the code is one of the six codes of the catalog and the code
  itself, unchanged, otherwise, and it does not fail; a code that is \<open>None\<close>, a
  boolean or a number comes back unchanged as well; a code that is a list or an object
  makes the lookup raise \<open>TypeError\<close>.
\<close>

theorem sectors_get_name:
  "sectors_get (JStr code) =
     Inr (JStr (if code = ''A050123'' then ''Industrie''
                else if code = ''A050124'' then ''Elektriciteit''
                else if code = ''A050125'' then ''Mobiliteit''
                else if code = ''A050126'' then ''Landbouw''
                else if code = ''A050127'' then ''Gebouwde omgeving''
                else if code = ''A052138'' then ''Landgebruik''
                else code))
   \<and> sectors_get JNull = Inr JNull
   \<and> sectors_get (JBool b) = Inr (JBool b)
   \<and> sectors_get (JNum n) = Inr (JNum n)
   \<and> sectors_get (JArr xs) = Inl TypeError
   \<and> sectors_get (JObj kvs) = Inl TypeError"
  by (simp add: sectors_get_def sectors_def)

theorem sectors_get_name_witness:
  "sectors_get (JStr ''A050127'') = Inr (JStr ''Gebouwde omgeving'')
   \<and> sectors_get (JStr ''B000001'') = Inr (JStr ''B000001'')
   \<and> sectors_get (JStr []) = Inr (JStr [])
   \<and> sectors_get (JNum 7) = Inr (JNum 7)
   \<and> sectors_get (JObj []) = Inl TypeError"
  using sectors_get_name [of "''A050127''" True 7 "[]" "[]"]
    sectors_get_name [of "''B000001''" True 7 "[]" "[]"]
    sectors_get_name [of "[]" True 7 "[]" "[]"]
  by simp

lemma process_item_total_row:
  "is_total_row item \<Longrightarrow> process_item c r item = Inr r"
  by (cases item) (simp_all add: is_total_row_def process_item_def)

lemma record_write_total_row: "is_total_row item \<Longrightarrow> record_write item = None"
  by (cases item) (simp_all add: is_total_row_def record_write_def)

lemma process_items_filter_total_rows:
  "process_items c r (filter (\<lambda>item. \<not> is_total_row item) items) = process_items c r items"
proof (induction items arbitrary: r)
  case Nil
  show ?case by simp
next
  case (Cons item items)
  show ?case
  proof (cases "is_total_row item")
    case True
    with Cons.IH show ?thesis by (simp add: process_item_total_row)
  next
    case False
    with Cons.IH show ?thesis by (simp split: sum.splits)
  qed
qed

lemma fetch_data_without_total_rows:
  "fetch_data (without_total_rows provider) url =
     (case fetch_data provider url of
        JArr items \<Rightarrow> JArr (filter (\<lambda>item. \<not> is_total_row item) items)
      | d \<Rightarrow> d)"
proof (cases "provider url")
  case Raised
  then show ?thesis by (simp add: fetch_data_def without_total_rows_def)
next
  case (Reply status body)
  show ?thesis
  proof (cases body)
    case NotJson
    with Reply show ?thesis by (simp add: fetch_data_def without_total_rows_def)
  next
    case (Json j)
    show ?thesis
    proof (cases j)
      case (JObj kvs)
      show ?thesis
      proof (cases "map_of kvs ''value''")
        case None
        with Reply Json JObj show ?thesis
          by (simp add: fetch_data_def without_total_rows_def dict_get_def)
      next
        case (Some v)
        with Reply Json JObj show ?thesis
          by (cases v) (simp_all add: fetch_data_def without_total_rows_def dict_get_def update_conv')
      qed
    qed (use Reply Json in \<open>simp_all add: fetch_data_def without_total_rows_def\<close>)
  qed
qed

lemma fetch_categories_without_total_rows:
  "fetch_categories (without_total_rows provider) period cs r =
   fetch_categories provider period cs r"
proof (induction cs arbitrary: r)
  case Nil
  show ?case by simp
next
  case (Cons p cs)
  obtain cname ckey where p: "p = (cname, ckey)" by (cases p)
  show ?case
    by (cases "fetch_data provider (query period ckey)")
       (simp_all add: p fetch_data_without_total_rows process_items_filter_total_rows Cons.IH
          split: sum.splits)
qed

lemma name_for_not_total: "code \<noteq> JStr ''T001616'' \<Longrightarrow> name_for code \<noteq> JStr ''T001616''"
  by (cases code) (auto simp: name_for_def sectors_def)

lemma results_get_total_setdefault_setitem:
  "results_get r (JStr ''T001616'') = None \<Longrightarrow> s \<noteq> JStr ''T001616'' \<Longrightarrow>
   results_get (setdefault_setitem r s c v) (JStr ''T001616'') = None"
  by (simp add: results_get_setdefault_setitem)

lemma results_get_total_process_items:
  "process_items c r items = Inr r' \<Longrightarrow> results_get r (JStr ''T001616'') = None \<Longrightarrow>
   results_get r' (JStr ''T001616'') = None"
proof (induction items arbitrary: r)
  case Nil
  then show ?case by simp
next
  case (Cons item items)
  from Cons.prems(1) have ok: "record_ok item"
    using process_item_bad [of item c r] by (auto split: sum.splits)
  define r1 where "r1 = (case record_write item of None \<Rightarrow> r
          | Some (name, v) \<Rightarrow> setdefault_setitem r name c v)"
  have "process_item c r item = Inr r1"
    unfolding r1_def using ok by (rule process_item_ok)
  with Cons.prems(1) have rest: "process_items c r1 items = Inr r'" by simp
  have "name \<noteq> JStr ''T001616''" if "record_write item = Some (name, v)" for name v
    using that by (cases item) (auto simp: record_write_def name_for_not_total split: if_splits)
  with Cons.prems(2) have "results_get r1 (JStr ''T001616'') = None"
    by (auto simp: r1_def results_get_total_setdefault_setitem split: option.splits)
  with Cons.IH [OF rest] show ?case .
qed

lemma results_get_total_fetch_categories:
  "fetch_categories provider period cs r = Inr r' \<Longrightarrow>
   results_get r (JStr ''T001616'') = None \<Longrightarrow> results_get r' (JStr ''T001616'') = None"
proof (induction cs arbitrary: r)
  case Nil
  then show ?case by simp
next
  case (Cons p cs)
  obtain cname ckey where p: "p = (cname, ckey)" by (cases p)
  from Cons.prems(1) obtain items r1 where
    "process_items cname r items = Inr r1" and
    rest: "fetch_categories provider period cs r1 = Inr r'"
    by (auto simp: p split: sum.splits)
  with Cons.prems(2) have "results_get r1 (JStr ''T001616'') = None"
    by (blast intro: results_get_total_process_items)
  with Cons.IH [OF rest] show ?case .
qed

text \<open>
  Claim C6: a record whose sector code is the code of the total row is discarded. The
  loop leaves the results as they are at such a record; the call returns the same with
  or without the total rows in the replies; and the returned mapping has no entry for
  the code of the total row.
\<close>

theorem total_row_discarded:
  "(is_total_row item \<longrightarrow> process_item category_name r item = Inr r)
   \<and> get_emission_data (without_total_rows provider) period = get_emission_data provider period
   \<and> (\<forall>results. get_emission_data provider period = Inr results
         \<longrightarrow> results_get results (JStr ''T001616'') = None)"
proof (intro conjI allI impI)
  assume "is_total_row item"
  then show "process_item category_name r item = Inr r"
    by (rule process_item_total_row)
next
  show "get_emission_data (without_total_rows provider) period = get_emission_data provider period"
    by (simp add: get_emission_data_def fetch_categories_without_total_rows)
next
  fix results
  assume "get_emission_data provider period = Inr results"
  then show "results_get results (JStr ''T001616'') = None"
    unfolding get_emission_data_def
    by (rule results_get_total_fetch_categories) simp
qed

theorem total_row_discarded_witness:
  "is_total_row (JObj [(''Klimaatsector'', JStr ''T001616''), (''EmissieBroeikasgassen_1'', JNum 150)])
   \<and> process_item ''total'' [(JStr ''Industrie'', [(''total'', JNum 20)])]
         (JObj [(''Klimaatsector'', JStr ''T001616''), (''EmissieBroeikasgassen_1'', JNum 150)])
       = Inr [(JStr ''Industrie'', [(''total'', JNum 20)])]
   \<and> get_emission_data (without_total_rows sample_provider) ''2023JJ00''
       = get_emission_data sample_provider ''2023JJ00''
   \<and> get_emission_data sample_provider ''2023JJ00'' =
       Inr [(JStr ''Industrie'', [(''total'', JNum 20)]),
            (JStr ''Mobiliteit'', [(''total'', JNull)]),
            (JStr ''X1'', [(''total'', JNum 0)])]
   \<and> results_get
         [(JStr ''Industrie'', [(''total'', JNum 20)]),
          (JStr ''Mobiliteit'', [(''total'', JNull)]),
          (JStr ''X1'', [(''total'', JNum 0)])]
         (JStr ''T001616'') = None"
proof -
  let ?row = "JObj [(''Klimaatsector'', JStr ''T001616''), (''EmissieBroeikasgassen_1'', JNum 150)]"
  have row: "is_total_row ?row"
    by (simp add: is_total_row_def sector_key_of_def dict_get_def)
  have run: "get_emission_data sample_provider ''2023JJ00'' =
       Inr [(JStr ''Industrie'', [(''total'', JNum 20)]),
            (JStr ''Mobiliteit'', [(''total'', JNull)]),
            (JStr ''X1'', [(''total'', JNum 0)])]"
    by (simp add: get_emission_data_def categories_def fetch_data_def sample_provider_def
        query_def base_url_def raise_for_status_def dict_get_def process_item_def
        sector_key_of_def emission_of_def sectors_get_def sectors_def)
  from total_row_discarded
    [of ?row "''total''" "[(JStr ''Industrie'', [(''total'', JNum 20)])]"
        sample_provider "''2023JJ00''"]
    row run
  show ?thesis by simp
qed

text \<open>
  Claim C9: the value stored for a record is its value field whenever the record has
  one, whatever it holds, and \<open>0.0\<close> only when the field is missing. A record whose
  value is \<open>null\<close> therefore leaves \<open>None\<close> in the returned mapping, which then
  holds an entry that is not a number.
\<close>

theorem null_value_stored:
  assumes "get_emission_data provider period = Inr results"
    and "(cname, ckey) \<in> set categories"
    and "records_of provider period ckey = before @ JObj kvs # after"
    and "stored_under (JObj kvs) s"
    and "\<forall>item \<in> set after. \<not> stored_under item s"
  shows "value_at results s cname =
           Some (case map_of kvs ''EmissieBroeikasgassen_1'' of
                   None \<Rightarrow> JNum 0
                 | Some v \<Rightarrow> v)"
  using value_at_last_record [OF assms]
  by (simp add: emission_of_def dict_get_def)

theorem null_value_stored_witness:
  "get_emission_data sample_provider ''2023JJ00'' =
     Inr [(JStr ''Industrie'', [(''total'', JNum 20)]),
          (JStr ''Mobiliteit'', [(''total'', JNull)]),
          (JStr ''X1'', [(''total'', JNum 0)])]
   \<and> (''total'', ''T001372'') \<in> set categories
   \<and> records_of sample_provider ''2023JJ00'' ''T001372'' =
       [JObj [(''Klimaatsector'', JStr ''T001616''), (''EmissieBroeikasgassen_1'', JNum 150)],
        JObj [(''Klimaatsector'', JStr ''A050123''), (''EmissieBroeikasgassen_1'', JNum 10)],
        JObj [(''Klimaatsector'', JStr ''A050123''), (''EmissieBroeikasgassen_1'', JNum 20)]]
       @ JObj [(''Klimaatsector'', JStr ''A050125''), (''EmissieBroeikasgassen_1'', JNull)]
       # [JObj [(''Klimaatsector'', JStr ''X1'')]]
   \<and> stored_under
         (JObj [(''Klimaatsector'', JStr ''A050125''), (''EmissieBroeikasgassen_1'', JNull)])
         (JStr ''Mobiliteit'')
   \<and> map_of [(''Klimaatsector'', JStr ''A050125''), (''EmissieBroeikasgassen_1'', JNull)]
         ''EmissieBroeikasgassen_1'' = Some JNull
   \<and> value_at
         [(JStr ''Industrie'', [(''total'', JNum 20)]),
          (JStr ''Mobiliteit'', [(''total'', JNull)]),
          (JStr ''X1'', [(''total'', JNum 0)])]
         (JStr ''Mobiliteit'') ''total'' = Some JNull"
proof -
  let ?kvs = "[(''Klimaatsector'', JStr ''A050125''), (''EmissieBroeikasgassen_1'', JNull)]"
  let ?after = "[JObj [(''Klimaatsector'', JStr ''X1'')]]"
  have run: "get_emission_data sample_provider ''2023JJ00'' =
     Inr [(JStr ''Industrie'', [(''total'', JNum 20)]),
          (JStr ''Mobiliteit'', [(''total'', JNull)]),
          (JStr ''X1'', [(''total'', JNum 0)])]"
    by (simp add: get_emission_data_def categories_def fetch_data_def sample_provider_def
        query_def base_url_def raise_for_status_def dict_get_def process_item_def
        sector_key_of_def emission_of_def sectors_get_def sectors_def)
  have cat: "(''total'', ''T001372'') \<in> set categories"
    by (simp add: categories_def)
  have recs: "records_of sample_provider ''2023JJ00'' ''T001372'' =
       [JObj [(''Klimaatsector'', JStr ''T001616''), (''EmissieBroeikasgassen_1'', JNum 150)],
        JObj [(''Klimaatsector'', JStr ''A050123''), (''EmissieBroeikasgassen_1'', JNum 10)],
        JObj [(''Klimaatsector'', JStr ''A050123''), (''EmissieBroeikasgassen_1'', JNum 20)]]
       @ JObj ?kvs # ?after"
    by (simp add: records_of_def fetch_data_def sample_provider_def raise_for_status_def
        dict_get_def)
  have st: "stored_under (JObj ?kvs) (JStr ''Mobiliteit'')"
    by (simp add: stored_under_def record_write_def sector_key_of_def dict_get_def
        name_for_def sectors_def)
  have later: "\<forall>item \<in> set ?after. \<not> stored_under item (JStr ''Mobiliteit'')"
    by (simp add: stored_under_def record_write_def sector_key_of_def dict_get_def
        name_for_def sectors_def)
  from null_value_stored [OF run cat recs st later] run cat recs st show ?thesis
    by simp
qed

section \<open>Claims about compute_average\<close>

lemma sum_list_values:
  "distinct (map fst data) \<Longrightarrow>
   sum_list (map (\<lambda>vals. dict_get vals category 0) (map snd data)) =
     (\<Sum>s \<in> set (map fst data). sector_value data category s)"
proof (induction data)
  case Nil
  show ?case by simp
next
  case (Cons p data)
  obtain k vals where p: "p = (k, vals)" by (cases p)
  from Cons.prems have k: "k \<notin> fst ` set data" and d: "distinct (map fst data)"
    by (auto simp: p)
  have same: "sector_value ((k, vals) # data) category s = sector_value data category s"
    if "s \<in> fst ` set data" for s
    using that k by (auto simp: sector_value_def)
  have head: "sector_value ((k, vals) # data) category k = dict_get vals category 0"
    by (simp add: sector_value_def dict_get_def)
  have "(\<Sum>s \<in> set (map fst (p # data)). sector_value (p # data) category s) =
        sector_value ((k, vals) # data) category k
        + (\<Sum>s \<in> fst ` set data. sector_value ((k, vals) # data) category s)"
    using k by (simp add: p)
  also have "(\<Sum>s \<in> fst ` set data. sector_value ((k, vals) # data) category s) =
        (\<Sum>s \<in> fst ` set data. sector_value data category s)"
    by (rule sum.cong) (simp_all add: same)
  finally show ?case
    using Cons.IH [OF d] by (simp add: p head)
qed

text \<open>
  Claim C2: \<open>compute_average\<close> returns the arithmetic mean, as a float, of the values of
  the category over the sector keys of the data, a sector without the category
  counting \<open>0.0\<close>; for empty data it returns \<open>0.0\<close>; it never raises. The mean is
  the exact quotient, converted to a float once. The data is a dictionary: its keys
  are distinct.
\<close>

theorem compute_average_mean:
  assumes "distinct (map fst data)"
  shows "compute_average to_float data category =
           Inr (if data = [] then 0 else to_float (arithmetic_mean data category))"
proof (cases "data = []")
  case True
  then show ?thesis by (simp add: compute_average_def)
next
  case False
  from assms have "card (set (map fst data)) = length data"
    using distinct_card [of "map fst data"] by simp
  with False sum_list_values [OF assms, of category] show ?thesis
    by (simp add: compute_average_def statistics_mean_def arithmetic_mean_def Let_def)
qed

theorem compute_average_mean_witness:
  "distinct (map fst sample_data)
   \<and> arithmetic_mean sample_data ''CO2'' = 7 / 3
   \<and> compute_average to_fixed sample_data ''CO2'' = Inr (2389 / 1024)
   \<and> distinct (map fst ([] :: emissions))
   \<and> compute_average to_fixed [] ''CO2'' = Inr 0"
proof -
  have d: "distinct (map fst sample_data)" "distinct (map fst ([] :: emissions))"
    by (simp_all add: sample_data_def)
  have m: "arithmetic_mean sample_data ''CO2'' = 7 / 3"
    by (simp add: arithmetic_mean_def sample_data_def sector_value_def)
  have r: "to_fixed (7 / 3) = 2389 / 1024"
    by code_simp
  have n: "sample_data \<noteq> []" by (simp add: sample_data_def)
  from compute_average_mean [OF d(1), of to_fixed "''CO2''"]
    compute_average_mean [OF d(2), of to_fixed "''CO2''"] d m r n
  show ?thesis by simp
qed

text \<open>
  Claim C8: when the data is not empty and every sector has the same value \<open>v\<close> for the
  category (\<open>0.0\<close> counting for a sector without it), \<open>compute_average\<close> returns
  exactly \<open>v\<close>. The sum is exact and \<open>v\<close>, a float, is its own conversion.
\<close>

theorem compute_average_constant:
  assumes "data \<noteq> []"
    and "\<forall>(sector, vals) \<in> set data.
           (case map_of vals category of None \<Rightarrow> 0 | Some x \<Rightarrow> x) = v"
    and "to_float v = v"
  shows "compute_average to_float data category = Inr v"
proof -
  from assms(2) have "map (\<lambda>vals. dict_get vals category 0) (map snd data) =
      replicate (length data) v"
    by (induction data) (auto simp: dict_get_def)
  moreover from assms(1) have "of_nat (length data) \<noteq> (0 :: rat)" by simp
  ultimately show ?thesis
    using assms(1,3)
    by (simp add: compute_average_def statistics_mean_def Let_def sum_list_replicate)
qed

theorem compute_average_constant_witness:
  "level_data \<noteq> []
   \<and> (case map_of [(''total'', 7 / 2), (''CO2'', 3 :: rat)] ''total'' of
         None \<Rightarrow> 0 | Some x \<Rightarrow> x) = 7 / 2
   \<and> (case map_of [(''total'', 7 / 2 :: rat)] ''total'' of
         None \<Rightarrow> 0 | Some x \<Rightarrow> x) = 7 / 2
   \<and> to_fixed (7 / 2) = 7 / 2
   \<and> compute_average to_fixed level_data ''total'' = Inr (7 / 2)"
proof -
  have n: "level_data \<noteq> []" by (simp add: level_data_def)
  have a: "\<forall>(sector, vals) \<in> set level_data.
           (case map_of vals ''total'' of None \<Rightarrow> 0 | Some x \<Rightarrow> x) = 7 / 2"
    by (simp add: level_data_def)
  have f: "to_fixed (7 / 2) = 7 / 2"
    by code_simp
  from compute_average_constant [where to_float = to_fixed, OF n a f] n f show ?thesis by simp
qed

section \<open>Claims about interpret_data\<close>

lemma interpret_loop_no_total:
  assumes "map_of averages ''total'' = None"
  shows "interpret_loop data averages acts =
     (if \<exists>(sector, vals) \<in> set data.
           0 < (case map_of vals ''total'' of None \<Rightarrow> 0 | Some t \<Rightarrow> t)
      then Inl KeyError else Inr acts)"
  using assms
  by (induction data averages acts rule: interpret_loop.induct)
     (auto simp: dict_get_def Let_def split: option.splits)

lemma interpret_loop_returns:
  assumes "map_of averages ''total'' = Some b"
  shows "\<exists>acts'. interpret_loop data averages acts = Inr acts'"
  using assms
  by (induction data averages acts rule: interpret_loop.induct) (auto simp: Let_def)

lemma interpret_loop_keys:
  assumes "interpret_loop data averages acts = Inr acts'"
  shows "fst ` set acts' =
     fst ` set acts \<union>
     {sector. \<exists>vals. (sector, vals) \<in> set data
        \<and> (case map_of averages ''total'' of None \<Rightarrow> 0 | Some b \<Rightarrow> b)
            < (case map_of vals ''total'' of None \<Rightarrow> 0 | Some t \<Rightarrow> t)}"
  using assms
proof (induction data averages acts rule: interpret_loop.induct)
  case (1 averages actions)
  then show ?case by simp
next
  case (2 sector vals rest averages actions)
  let ?t = "case map_of vals ''total'' of None \<Rightarrow> 0 | Some t \<Rightarrow> t"
  let ?b = "case map_of averages ''total'' of None \<Rightarrow> 0 | Some b \<Rightarrow> b"
  have t: "dict_get vals ''total'' 0 = ?t" and b: "dict_get averages ''total'' 0 = ?b"
    by (simp_all add: dict_get_def)
  show ?case
  proof (cases "?b < ?t")
    case True
    with "2.prems" obtain average where
      a: "map_of averages ''total'' = Some average" and
      rest: "interpret_loop rest averages
               (AList.update sector (action_text sector ?t average) actions) = Inr acts'"
      by (auto simp: t b Let_def split: option.splits)
    from True a have "dict_get averages ''total'' 0 < dict_get vals ''total'' 0"
      by (simp add: dict_get_def)
    from "2.IH"(1) [OF refl this a] rest
    have "fst ` set acts' =
        fst ` set (AList.update sector (action_text sector ?t average) actions) \<union>
        {s. \<exists>vals. (s, vals) \<in> set rest \<and> ?b < (case map_of vals ''total'' of None \<Rightarrow> 0 | Some t \<Rightarrow> t)}"
      by (simp add: t)
    with True show ?thesis
      by (auto simp: dom_update)
  next
    case False
    with "2.prems" have rest: "interpret_loop rest averages actions = Inr acts'"
      by (simp add: t b Let_def)
    from False have "\<not> dict_get averages ''total'' 0 < dict_get vals ''total'' 0"
      by (simp add: dict_get_def)
    from "2.IH"(2) [OF refl this rest] False show ?thesis
      by auto
  qed
qed

text \<open>
  Claim C3: the keys of the recommendations that \<open>interpret_data\<close> returns are exactly
  the sectors of the data whose total, \<open>0.0\<close> where it is absent, is strictly greater
  than the baseline for the total; a sector whose total equals the baseline is not
  among them. With a baseline for the total in the averages, \<open>interpret_data\<close> does
  return. (Without one the test reads the baseline as \<open>0.0\<close>, and the call returns only
  when no sector is above it: see C10.)
\<close>

theorem interpret_data_keys:
  "(\<forall>acts. interpret_data data averages = Inr acts \<longrightarrow>
      fst ` set acts =
        {sector. \<exists>vals. (sector, vals) \<in> set data
           \<and> (case map_of averages ''total'' of None \<Rightarrow> 0 | Some b \<Rightarrow> b)
               < (case map_of vals ''total'' of None \<Rightarrow> 0 | Some t \<Rightarrow> t)})
   \<and> (\<forall>b. map_of averages ''total'' = Some b \<longrightarrow>
         (\<exists>acts. interpret_data data averages = Inr acts))"
  using interpret_loop_keys [of data averages "[]"] interpret_loop_returns [of averages _ data "[]"]
  by (simp add: interpret_data_def)

theorem interpret_data_keys_witness:
  "map_of sample_averages ''total'' = Some 7
   \<and> interpret_data sample_data sample_averages =
       Inr [(''Industrie'', action_text ''Industrie'' 10 7)]
   \<and> {sector. \<exists>vals. (sector, vals) \<in> set sample_data
           \<and> (case map_of sample_averages ''total'' of None \<Rightarrow> 0 | Some b \<Rightarrow> b)
               < (case map_of vals ''total'' of None \<Rightarrow> 0 | Some t \<Rightarrow> t)}
       = {''Industrie''}"
proof -
  have a: "map_of sample_averages ''total'' = Some 7"
    by (simp add: sample_averages_def)
  have run: "interpret_data sample_data sample_averages =
       Inr [(''Industrie'', action_text ''Industrie'' 10 7)]"
    by (simp add: interpret_data_def sample_data_def sample_averages_def dict_get_def)
  from interpret_data_keys [of sample_data sample_averages] run
  have "fst ` set [(''Industrie'', action_text ''Industrie'' 10 7)] =
      {sector. \<exists>vals. (sector, vals) \<in> set sample_data
           \<and> (case map_of sample_averages ''total'' of None \<Rightarrow> 0 | Some b \<Rightarrow> b)
               < (case map_of vals ''total'' of None \<Rightarrow> 0 | Some t \<Rightarrow> t)}"
    by (elim conjE allE [of _ "[(''Industrie'', action_text ''Industrie'' 10 7)]"]) simp
  then have "{sector. \<exists>vals. (sector, vals) \<in> set sample_data
           \<and> (case map_of sample_averages ''total'' of None \<Rightarrow> 0 | Some b \<Rightarrow> b)
               < (case map_of vals ''total'' of None \<Rightarrow> 0 | Some t \<Rightarrow> t)}
       = {''Industrie''}"
    by simp
  with a run show ?thesis by (intro conjI)
qed

text \<open>
  Claim C10: with averages that have no key \<open>total\<close>, \<open>interpret_data\<close> raises
  \<open>KeyError\<close> exactly when some sector of the data has a total, \<open>0.0\<close> where it is
  absent, strictly greater than \<open>0.0\<close>, and returns the empty mapping otherwise.
\<close>

theorem interpret_data_no_total:
  assumes "map_of averages ''total'' = None"
  shows "interpret_data data averages =
     (if \<exists>(sector, vals) \<in> set data.
           0 < (case map_of vals ''total'' of None \<Rightarrow> 0 | Some t \<Rightarrow> t)
      then Inl KeyError else Inr [])"
  using interpret_loop_no_total [OF assms] by (simp add: interpret_data_def)

theorem interpret_data_no_total_witness:
  "map_of partial_averages ''total'' = None
   \<and> interpret_data sample_data partial_averages = Inl KeyError
   \<and> interpret_data sink_data partial_averages = Inr []
   \<and> interpret_data [] partial_averages = Inr []"
proof -
  have a: "map_of partial_averages ''total'' = None"
    by (simp add: partial_averages_def)
  from interpret_data_no_total [OF a, of sample_data]
    interpret_data_no_total [OF a, of sink_data]
    interpret_data_no_total [OF a, of "[]"] a
  show ?thesis by (simp add: sample_data_def sink_data_def)
qed

end
